theory Spec2Isabelle
  imports Main
begin

section \<open>Add-on package signing: lib/crypto/packaged.py\<close>

text \<open>
  The module signs the files of an add-on version: it resolves the signing
  server from the review status of the file, extracts the signature manifest
  of the archive, posts it to the signing server, writes the signed archive
  to a temporary file, renames the temporary file onto the file's path and
  stores the serial number of the certificate on the file record.

  The functions of the module are embedded as HOL functions that pass the
  world (file system, file records, network requests, log) explicitly. The
  libraries the module calls (tempfile, the archive extractor, requests,
  json, base64, the certificate parser, os.rename) are parameters, collected
  in the record \<open>ext\<close>; every exception they can raise is a value.
\<close>

subsection \<open>Data model\<close>

text \<open>
  Modelled from the spec: the constants of module \<open>amo\<close> (\<open>amo.STATUS_PUBLIC\<close>) are
  not part of the sources at hand. The spec gives the review status of a
  file as the enumeration unreviewed, preliminary, public.
\<close>

datatype status = STATUS_UNREVIEWED | STATUS_PRELIMINARY | STATUS_PUBLIC

text \<open>
  The file object as \<open>packaged.py\<close> reads it: \<open>pk\<close>, \<open>status\<close>, \<open>file_path\<close>,
  the result of \<open>can_be_signed()\<close>, \<open>version.addon.slug\<close> and
  \<open>version.version\<close>.

  Modelled from the spec: the method \<open>File.can_be_signed\<close> is not part of the
  sources at hand; the spec describes it as a flag telling whether the file
  is structurally eligible for signing (archive format, not already signed).
\<close>

record file_obj =
  pk :: int
  status :: status
  file_path :: string
  can_be_signed :: bool
  addon_slug :: string
  version_version :: string

record version_obj =
  version_pk :: int
  all_files :: "file_obj list"

text \<open>
  The three settings the module reads. A setting holds a string or nothing
  (\<open>None\<close>); Python's \<open>not server\<close> is true for both \<open>None\<close> and the empty
  string.
\<close>

record settings =
  SIGNING_SERVER :: "string option"
  PRELIMINARY_SIGNING_SERVER :: "string option"
  SIGNING_SERVER_TIMEOUT :: int

subsection \<open>Endpoint resolution\<close>

definition get_endpoint :: "settings \<Rightarrow> file_obj \<Rightarrow> string option" where
  "get_endpoint cfg file_obj =
     (let server = (if status file_obj \<noteq> STATUS_PUBLIC
                    then PRELIMINARY_SIGNING_SERVER cfg
                    else SIGNING_SERVER cfg)
      in case server of
           None \<Rightarrow> None
         | Some s \<Rightarrow> if s = [] then None else Some (s @ ''/1.0/sign_addon''))"

subsection \<open>The world and the libraries\<close>

text \<open>
  Exceptions are values. \<open>SigningError\<close> is the module's own exception with
  its message; \<open>OtherError\<close> stands for every other exception that leaves a
  function of the module uncaught (from \<open>tempfile\<close>, \<open>json.loads\<close>, the key
  lookup, \<open>b64decode\<close>, \<open>os.rename\<close> or the handler of \<open>HTTPError\<close>), tagged
  with the name of a class it may have.
\<close>

datatype error = SigningError string | OtherError string

datatype level = INFO | WARNING | ERROR

text \<open>
  The arguments of one call of \<open>requests.post\<close>: the URL, the timeout, the form
  field \<open>addon_id\<close> and the name and body of the uploaded file.
\<close>

record request =
  url :: string
  timeout :: int
  data_addon_id :: string
  files_name :: string
  files_body :: string

record response =
  status_code :: int
  reason :: string
  content :: string

text \<open>
  What \<open>requests.post\<close> does: it returns a response, raises
  \<open>requests.exceptions.HTTPError\<close>, or raises something else (a connection
  error or a timeout, say). The handler of \<open>HTTPError\<close> formats
  \<open>error.response.status\<close> and the error itself: the first field is that
  attribute as text, \<open>None\<close> where reading it raises \<open>AttributeError\<close>; the
  second is \<open>str(error)\<close>.
\<close>

datatype post_outcome =
    Returned response
  | HTTPError "string option" string
  | Raised

text \<open>
  The world: the files on disk by path, the column \<open>cert_serial_num\<close> of the
  file records by primary key, the requests sent to a signing server so far
  and the lines logged so far (both oldest first).
\<close>

record world =
  fs :: "string \<rightharpoonup> string"
  cert_serial_nums :: "int \<rightharpoonup> int"
  posted :: "request list"
  logged :: "(level \<times> string) list"

text \<open>
  The libraries. \<open>temp_names\<close> are the candidate names
  \<open>tempfile.NamedTemporaryFile\<close> tries in turn; it takes the first one that
  does not exist. \<open>JarExtractor\<close> maps the bytes of an archive to the text of
  \<open>jar.signatures\<close>, \<open>None\<close> where the constructor raises. \<open>make_signed\<close> maps
  the archive and the signature to the successive contents it writes to its
  output path while it works and to the finished signed archive, \<open>None\<close> where
  it raises part-way. \<open>post\<close> answers a request, given the requests sent
  before. \<open>json_field\<close> is \<open>json.loads(body)[key]\<close> and \<open>b64decode\<close> is
  \<open>base64.b64decode\<close>, \<open>None\<close> where they raise.
  \<open>get_signature_serial_number\<close> reads the serial number of the certificate,
  an integer, \<open>None\<close> where it raises. \<open>rename_permitted\<close> tells whether the
  operating system carries out \<open>os.rename\<close> from one path to another (it
  refuses across devices, for one).
\<close>

record ext =
  temp_names :: "string list"
  JarExtractor :: "string \<Rightarrow> string option"
  make_signed :: "string \<Rightarrow> string \<Rightarrow> string list \<times> string option"
  post :: "request list \<Rightarrow> request \<Rightarrow> post_outcome"
  json_field :: "string \<Rightarrow> string \<Rightarrow> string option"
  b64decode :: "string \<Rightarrow> string option"
  get_signature_serial_number :: "string \<Rightarrow> int option"
  rename_permitted :: "string \<Rightarrow> string \<Rightarrow> bool"

text \<open>
  A run is the world now together with every earlier world, newest first. An
  effect makes a new world and keeps the one before it, so that a property
  of every moment of an execution is a property of every world of the run.
\<close>

type_synonym run = "world \<times> world list"

definition now :: "run \<Rightarrow> world" where
  "now r = fst r"

definition worlds :: "run \<Rightarrow> world list" where
  "worlds r = fst r # snd r"

definition effect :: "(world \<Rightarrow> world) \<Rightarrow> run \<Rightarrow> run" where
  "effect g r = (g (fst r), fst r # snd r)"

definition log :: "level \<Rightarrow> string \<Rightarrow> run \<Rightarrow> run" where
  "log l msg = effect (\<lambda>w. w\<lparr>logged := logged w @ [(l, msg)]\<rparr>)"

definition write_file :: "string \<Rightarrow> string \<Rightarrow> run \<Rightarrow> run" where
  "write_file path bytes = effect (\<lambda>w. w\<lparr>fs := (fs w)(path \<mapsto> bytes)\<rparr>)"

definition remove_file :: "string \<Rightarrow> run \<Rightarrow> run" where
  "remove_file path = effect (\<lambda>w. w\<lparr>fs := (fs w)(path := None)\<rparr>)"

text \<open>Decimal text of an integer, as \<open>'%s' % n\<close> gives it.\<close>

fun str_nat :: "nat \<Rightarrow> string" where
  "str_nat n =
     (if n < 10 then [''0123456789'' ! n]
      else str_nat (n div 10) @ [''0123456789'' ! (n mod 10)])"

definition str_int :: "int \<Rightarrow> string" where
  "str_int i = (if i < 0 then CHR ''-'' # str_nat (nat (- i)) else str_nat (nat i))"

text \<open>
  \<open>with tempfile.NamedTemporaryFile() as temp_file: temp_filename = temp_file.name\<close>:
  the file is created empty under the first candidate name that does not
  exist and removed again when the block is left; only its name is kept.
  With no usable name the call raises.
\<close>

definition NamedTemporaryFile :: "ext \<Rightarrow> run \<Rightarrow> (string \<times> run) option" where
  "NamedTemporaryFile x r =
     (case find (\<lambda>n. fs (now r) n = None) (temp_names x) of
        None \<Rightarrow> None
      | Some name \<Rightarrow> Some (name, remove_file name (write_file name [] r)))"

text \<open>
  \<open>os.rename(src, dst)\<close>: one step that makes \<open>dst\<close> name the bytes of \<open>src\<close>
  and removes the name \<open>src\<close>; it raises \<open>OSError\<close>, changing nothing, when
  \<open>src\<close> does not exist or the system refuses.
\<close>

definition os_rename :: "ext \<Rightarrow> string \<Rightarrow> string \<Rightarrow> run \<Rightarrow> (error + unit) \<times> run" where
  "os_rename x src dst r =
     (case fs (now r) src of
        None \<Rightarrow> (Inl (OtherError ''OSError''), r)
      | Some bytes \<Rightarrow>
          if rename_permitted x src dst
          then (Inr (), effect (\<lambda>w. w\<lparr>fs := (fs w)(src := None, dst \<mapsto> bytes)\<rparr>) r)
          else (Inl (OtherError ''OSError''), r))"

text \<open>
  \<open>jar.make_signed(pkcs7)\<close> writes the new archive to the output path piece by
  piece: every content the path holds meanwhile is a world of the run.
\<close>

definition jar_make_signed :: "ext \<Rightarrow> string \<Rightarrow> string \<Rightarrow> string \<Rightarrow> run \<Rightarrow> bool \<times> run" where
  "jar_make_signed x archive outpath pkcs7 r =
     (let r1 = fold (write_file outpath) (fst (make_signed x archive pkcs7)) r
      in case snd (make_signed x archive pkcs7) of
           None \<Rightarrow> (False, r1)
         | Some signed \<Rightarrow> (True, write_file outpath signed r1))"

subsection \<open>The functions of the module\<close>

text \<open>
  \<open>call_signing\<close> returns the serial number of the certificate, or nothing
  (\<open>None\<close>) when no endpoint is active, or raises. The world it leaves is
  returned in every case: what an execution did before it raised stays
  done.
\<close>

definition call_signing ::
  "settings \<Rightarrow> ext \<Rightarrow> file_obj \<Rightarrow> run \<Rightarrow> (error + int option) \<times> run" where
  "call_signing cfg x file_obj r =
     (case get_endpoint cfg file_obj of
        None \<Rightarrow> (Inr None, log WARNING ''Not signing: no active endpoint'' r)
      | Some endpoint \<Rightarrow>
     (case NamedTemporaryFile x r of
        None \<Rightarrow> (Inl (OtherError ''IOError''), r)
      | Some (temp_filename, r1) \<Rightarrow>
     (case (case fs (now r1) (file_path file_obj) of
              None \<Rightarrow> None
            | Some archive \<Rightarrow> map_option (Pair archive) (JarExtractor x archive)) of
        None \<Rightarrow>
          (let msg = ''Archive extraction failed. Bad archive?''
           in (Inl (SigningError msg), log ERROR msg r1))
      | Some (archive, signatures) \<Rightarrow>
     (let r2 = log INFO (''File signature contents: '' @ signatures) r1;
          addon_id = addon_slug file_obj @ ''-'' @ version_version file_obj;
          r3 = log INFO (''Calling signing service: '' @ endpoint) r2;
          req = \<lparr>url = endpoint, timeout = SIGNING_SERVER_TIMEOUT cfg,
                 data_addon_id = addon_id, files_name = ''zigbert.sf'',
                 files_body = signatures\<rparr>;
          r4 = effect (\<lambda>w. w\<lparr>posted := posted w @ [req]\<rparr>) r3
      in case post x (posted (now r3)) req of
           HTTPError st txt \<Rightarrow>
             (case st of
                None \<Rightarrow> (Inl (OtherError ''AttributeError''), r4)
              | Some s \<Rightarrow>
                  (let msg = ''Posting to add-on signing failed: '' @ s @ '', '' @ txt
                   in (Inl (SigningError msg), log ERROR msg r4)))
         | Raised \<Rightarrow>
             (let msg = ''Posting to add-on signing failed''
              in (Inl (SigningError msg), log ERROR msg r4))
         | Returned response \<Rightarrow>
             if status_code response \<noteq> 200
             then (let msg = ''Posting to add-on signing failed '' @ reason response
                   in (Inl (SigningError msg), log ERROR msg r4))
             else
     (case json_field x (content response) ''zigbert.rsa'' of
        None \<Rightarrow> (Inl (OtherError ''ValueError''), r4)
      | Some encoded \<Rightarrow>
     (case b64decode x encoded of
        None \<Rightarrow> (Inl (OtherError ''TypeError''), r4)
      | Some pkcs7 \<Rightarrow>
     (case get_signature_serial_number x pkcs7 of
        None \<Rightarrow>
          (let msg = ''Addon signing failed''
           in (Inl (SigningError msg), log ERROR msg r4))
      | Some cert_serial_num \<Rightarrow>
     (case jar_make_signed x archive temp_filename pkcs7 r4 of
        (False, r5) \<Rightarrow>
          (let msg = ''Addon signing failed''
           in (Inl (SigningError msg), log ERROR msg r5))
      | (True, r5) \<Rightarrow>
     (case os_rename x temp_filename (file_path file_obj) r5 of
        (Inl e, r6) \<Rightarrow> (Inl e, r6)
      | (Inr _, r6) \<Rightarrow> (Inr (Some cert_serial_num), r6))))))))))"

text \<open>
  \<open>file_obj.update(cert_serial_num=...)\<close> writes the column of the record.
\<close>

definition update_cert_serial_num :: "file_obj \<Rightarrow> int \<Rightarrow> run \<Rightarrow> run" where
  "update_cert_serial_num file_obj n =
     effect (\<lambda>w. w\<lparr>cert_serial_nums := (cert_serial_nums w)(pk file_obj \<mapsto> n)\<rparr>)"

text \<open>
  \<open>sign_file\<close> has no return statement: its result is an error or nothing.
  The test \<open>if cert_serial_num:\<close> is Python's truth test, false for \<open>None\<close> and
  for the integer 0. Only \<open>SigningError\<close> is caught, logged and raised again;
  any other exception passes through.
\<close>

definition sign_file :: "settings \<Rightarrow> ext \<Rightarrow> file_obj \<Rightarrow> run \<Rightarrow> (error + unit) \<times> run" where
  "sign_file cfg x file_obj r =
     (if \<not> can_be_signed file_obj
      then (let msg = ''Attempt to sign a non-xpi file '' @ str_int (pk file_obj) @ ''.''
            in (Inl (SigningError msg), log ERROR msg r))
      else
        (case call_signing cfg x file_obj r of
           (Inl (SigningError msg), r1) \<Rightarrow>
             (Inl (SigningError msg),
              log INFO (''Signing failed for file '' @ str_int (pk file_obj) @ ''.'') r1)
         | (Inl (OtherError name), r1) \<Rightarrow> (Inl (OtherError name), r1)
         | (Inr cert_serial_num, r1) \<Rightarrow>
             (let r2 = (case cert_serial_num of
                          None \<Rightarrow> r1
                        | Some n \<Rightarrow> if n \<noteq> 0 then update_cert_serial_num file_obj n r1
                                    else r1)
              in (Inr (),
                  log INFO (''Signing complete for file '' @ str_int (pk file_obj) @ ''.'') r2))))"

text \<open>The loop of \<open>sign\<close>: an exception of \<open>sign_file\<close> leaves the loop.\<close>

fun sign_files :: "settings \<Rightarrow> ext \<Rightarrow> file_obj list \<Rightarrow> run \<Rightarrow> (error + unit) \<times> run" where
  "sign_files cfg x [] r = (Inr (), r)"
| "sign_files cfg x (file_obj # rest) r =
     (case sign_file cfg x file_obj r of
        (Inl e, r1) \<Rightarrow> (Inl e, r1)
      | (Inr _, r1) \<Rightarrow> sign_files cfg x rest r1)"

definition sign :: "settings \<Rightarrow> ext \<Rightarrow> version_obj \<Rightarrow> run \<Rightarrow> (error + unit) \<times> run" where
  "sign cfg x version r =
     (if all_files version = []
      then (Inl (SigningError ''No file''),
            log ERROR (''Attempt to sign version '' @ str_int (version_pk version)
                       @ '' with no files.'') r)
      else
        (let r1 = log INFO (''Signing version: '' @ str_int (version_pk version)) r
         in sign_files cfg x (filter can_be_signed (all_files version)) r1))"

subsection \<open>Example inputs\<close>

text \<open>
  Concrete settings, libraries, files and a world, on which the theorems below
  are instantiated. The example archive extractor accepts exactly the
  archive \<open>PK-good\<close>; the example signer writes two partial contents before
  the finished archive; the example server answers 200.
\<close>

definition example_settings :: settings where
  "example_settings =
     \<lparr>SIGNING_SERVER = Some ''https://signing'',
      PRELIMINARY_SIGNING_SERVER = Some ''https://prelim'',
      SIGNING_SERVER_TIMEOUT = 10\<rparr>"

definition example_file :: file_obj where
  "example_file =
     \<lparr>pk = 7, status = STATUS_PUBLIC, file_path = ''/addons/7.xpi'', can_be_signed = True,
      addon_slug = ''adblock'', version_version = ''1.0''\<rparr>"

definition broken_file :: file_obj where
  "broken_file =
     \<lparr>pk = 6, status = STATUS_PUBLIC, file_path = ''/addons/6.xpi'', can_be_signed = True,
      addon_slug = ''adblock'', version_version = ''1.0''\<rparr>"

definition example_version :: version_obj where
  "example_version = \<lparr>version_pk = 3, all_files = [broken_file, example_file]\<rparr>"

definition example_ext :: ext where
  "example_ext =
     \<lparr>temp_names = [''/tmp/tmpA'', ''/tmp/tmpB''],
      JarExtractor = (\<lambda>a. if a = ''PK-good'' then Some ''manifest'' else None),
      make_signed = (\<lambda>a p. ([''PK'', ''PK-go''], Some (a @ ''+'' @ p))),
      post = (\<lambda>_ _. Returned \<lparr>status_code = 200, reason = ''OK'', content = ''{json}''\<rparr>),
      json_field = (\<lambda>body key. if key = ''zigbert.rsa'' then Some ''QUJD'' else None),
      b64decode = (\<lambda>s. if s = ''QUJD'' then Some ''ABC'' else None),
      get_signature_serial_number = (\<lambda>p. Some 42),
      rename_permitted = (\<lambda>_ _. True)\<rparr>"

text \<open>
  Two variants of the example libraries: a certificate parser that reads the
  serial number 0, and a server that answers 500.
\<close>

definition zero_serial_ext :: ext where
  "zero_serial_ext = example_ext\<lparr>get_signature_serial_number := \<lambda>_. Some 0\<rparr>"

definition failing_server_ext :: ext where
  "failing_server_ext =
     example_ext\<lparr>post := \<lambda>_ _. Returned \<lparr>status_code = 500,
                    reason = ''Internal Server Error'', content = []\<rparr>\<rparr>"

definition example_world :: world where
  "example_world =
     \<lparr>fs = [''/addons/7.xpi'' \<mapsto> ''PK-good'', ''/addons/6.xpi'' \<mapsto> ''not an archive'',
             ''/tmp/tmpA'' \<mapsto> ''junk''],
      cert_serial_nums = Map.empty, posted = [], logged = []\<rparr>"

section \<open>Properties\<close>

subsection \<open>Endpoint resolution\<close>

text \<open>
  Claim C7. The endpoint depends on the file through its status only. A
  public file resolves to the default server's endpoint, a file of any other
  status to the preliminary server's endpoint and not to the default one
  (where the two settings differ); the URL is the server followed by
  \<open>/1.0/sign_addon\<close>.
\<close>

theorem get_endpoint_by_status:
  "(status f = status g \<longrightarrow> get_endpoint cfg f = get_endpoint cfg g)
   \<and> (status f1 = STATUS_PUBLIC \<longrightarrow> SIGNING_SERVER cfg = Some s \<longrightarrow> s \<noteq> [] \<longrightarrow>
        get_endpoint cfg f1 = Some (s @ ''/1.0/sign_addon''))
   \<and> (status f2 \<noteq> STATUS_PUBLIC \<longrightarrow> PRELIMINARY_SIGNING_SERVER cfg = Some p \<longrightarrow> p \<noteq> [] \<longrightarrow>
        get_endpoint cfg f2 = Some (p @ ''/1.0/sign_addon''))
   \<and> (status f2 \<noteq> STATUS_PUBLIC \<longrightarrow> SIGNING_SERVER cfg = Some s \<longrightarrow>
        PRELIMINARY_SIGNING_SERVER cfg \<noteq> Some s \<longrightarrow>
        get_endpoint cfg f2 \<noteq> Some (s @ ''/1.0/sign_addon''))"
  by (auto simp: get_endpoint_def split: option.splits)

theorem get_endpoint_by_status_witness:
  "status example_file = status (example_file\<lparr>pk := 8\<rparr>)
   \<and> status example_file = STATUS_PUBLIC
   \<and> SIGNING_SERVER example_settings = Some ''https://signing''
   \<and> ''https://signing'' \<noteq> []
   \<and> status (example_file\<lparr>status := STATUS_UNREVIEWED\<rparr>) \<noteq> STATUS_PUBLIC
   \<and> PRELIMINARY_SIGNING_SERVER example_settings = Some ''https://prelim''
   \<and> ''https://prelim'' \<noteq> []
   \<and> PRELIMINARY_SIGNING_SERVER example_settings \<noteq> Some ''https://signing''
   \<and> get_endpoint example_settings example_file
       = get_endpoint example_settings (example_file\<lparr>pk := 8\<rparr>)
   \<and> get_endpoint example_settings example_file = Some ''https://signing/1.0/sign_addon''
   \<and> get_endpoint example_settings (example_file\<lparr>status := STATUS_UNREVIEWED\<rparr>)
       = Some ''https://prelim/1.0/sign_addon''
   \<and> get_endpoint example_settings (example_file\<lparr>status := STATUS_UNREVIEWED\<rparr>)
       \<noteq> Some ''https://signing/1.0/sign_addon''"
  using get_endpoint_by_status [of example_file "example_file\<lparr>pk := 8\<rparr>" example_settings
      example_file "''https://signing''" "example_file\<lparr>status := STATUS_UNREVIEWED\<rparr>"
      "''https://prelim''"]
  by (simp add: example_settings_def example_file_def get_endpoint_def)

text \<open>
  Claim C10. For a public file the endpoint is the same under any two
  settings that agree on the default server, whatever the preliminary
  server is; for a file of another status it is the same under any two
  settings that agree on the preliminary server. A public file has no
  endpoint when the default server is unset (\<open>None\<close> or empty), also with a
  preliminary server configured, and the other way round.
\<close>

theorem get_endpoint_independent:
  "(status f = STATUS_PUBLIC \<longrightarrow> SIGNING_SERVER cfg' = SIGNING_SERVER cfg \<longrightarrow>
      get_endpoint cfg' f = get_endpoint cfg f)
   \<and> (status g \<noteq> STATUS_PUBLIC \<longrightarrow>
        PRELIMINARY_SIGNING_SERVER cfg' = PRELIMINARY_SIGNING_SERVER cfg \<longrightarrow>
        get_endpoint cfg' g = get_endpoint cfg g)
   \<and> (status f = STATUS_PUBLIC \<longrightarrow>
        SIGNING_SERVER cfg1 = None \<or> SIGNING_SERVER cfg1 = Some [] \<longrightarrow>
        get_endpoint cfg1 f = None)
   \<and> (status g \<noteq> STATUS_PUBLIC \<longrightarrow>
        PRELIMINARY_SIGNING_SERVER cfg2 = None \<or> PRELIMINARY_SIGNING_SERVER cfg2 = Some [] \<longrightarrow>
        get_endpoint cfg2 g = None)"
  by (auto simp: get_endpoint_def split: option.splits)

theorem get_endpoint_independent_witness:
  "status example_file = STATUS_PUBLIC
   \<and> SIGNING_SERVER (example_settings\<lparr>PRELIMINARY_SIGNING_SERVER := None\<rparr>)
       = SIGNING_SERVER example_settings
   \<and> status (example_file\<lparr>status := STATUS_PRELIMINARY\<rparr>) \<noteq> STATUS_PUBLIC
   \<and> PRELIMINARY_SIGNING_SERVER (example_settings\<lparr>SIGNING_SERVER := None\<rparr>)
       = PRELIMINARY_SIGNING_SERVER example_settings
   \<and> SIGNING_SERVER (example_settings\<lparr>SIGNING_SERVER := None\<rparr>) = None
   \<and> PRELIMINARY_SIGNING_SERVER (example_settings\<lparr>SIGNING_SERVER := None\<rparr>)
       = Some ''https://prelim''
   \<and> PRELIMINARY_SIGNING_SERVER (example_settings\<lparr>PRELIMINARY_SIGNING_SERVER := Some []\<rparr>)
       = Some []
   \<and> SIGNING_SERVER (example_settings\<lparr>PRELIMINARY_SIGNING_SERVER := Some []\<rparr>)
       = Some ''https://signing''
   \<and> get_endpoint (example_settings\<lparr>PRELIMINARY_SIGNING_SERVER := None\<rparr>) example_file
       = get_endpoint example_settings example_file
   \<and> get_endpoint (example_settings\<lparr>SIGNING_SERVER := None\<rparr>)
         (example_file\<lparr>status := STATUS_PRELIMINARY\<rparr>)
       = get_endpoint example_settings (example_file\<lparr>status := STATUS_PRELIMINARY\<rparr>)
   \<and> get_endpoint (example_settings\<lparr>SIGNING_SERVER := None\<rparr>) example_file = None
   \<and> get_endpoint (example_settings\<lparr>PRELIMINARY_SIGNING_SERVER := Some []\<rparr>)
         (example_file\<lparr>status := STATUS_PRELIMINARY\<rparr>) = None"
  using get_endpoint_independent [of example_file
      "example_settings\<lparr>PRELIMINARY_SIGNING_SERVER := None\<rparr>" example_settings
      "example_file\<lparr>status := STATUS_PRELIMINARY\<rparr>"
      "example_settings\<lparr>SIGNING_SERVER := None\<rparr>"
      "example_settings\<lparr>PRELIMINARY_SIGNING_SERVER := Some []\<rparr>"]
  by (simp add: example_settings_def example_file_def get_endpoint_def)

subsection \<open>Facts about runs\<close>

declare str_nat.simps [simp del]

lemma snd_log: "snd (log l m r) = fst r # snd r"
  by (simp add: log_def effect_def)

lemma fst_log: "fst (log l m r) = (fst r)\<lparr>logged := logged (fst r) @ [(l, m)]\<rparr>"
  by (simp add: log_def effect_def)

lemmas run_defs = NamedTemporaryFile_def jar_make_signed_def os_rename_def log_def effect_def
  write_file_def remove_file_def update_cert_serial_num_def now_def Let_def

lemmas example_defs = example_settings_def example_ext_def example_file_def broken_file_def
  example_version_def example_world_def zero_serial_ext_def failing_server_ext_def

lemma str_int_3: "str_int 3 = ''3''" and str_int_6: "str_int 6 = ''6''" and str_int_7: "str_int 7 = ''7''"
  by (simp_all add: str_int_def str_nat.simps)

lemma sign_files_append:
  "sign_files cfg x (pre @ rest) r =
     (case sign_files cfg x pre r of
        (Inl e, r1) \<Rightarrow> (Inl e, r1)
      | (Inr _, r1) \<Rightarrow> sign_files cfg x rest r1)"
  by (induction pre arbitrary: r) (auto split: prod.splits sum.splits)

subsection \<open>The gates of \<open>sign_file\<close> and \<open>sign\<close>\<close>

text \<open>
  Claim C9. A file that cannot be signed is rejected by \<open>sign_file\<close> with a
  \<open>SigningError\<close> at its first test. Every world of the run has the files,
  the records and the requests of the start, and the outcome is the same
  under any settings and any libraries: no endpoint is resolved, nothing is
  extracted and nothing is posted.
\<close>

theorem sign_file_rejects_ineligible:
  assumes "\<not> can_be_signed f"
  shows "fst (sign_file cfg x f (w, []))
           = Inl (SigningError (''Attempt to sign a non-xpi file '' @ str_int (pk f) @ ''.''))
    \<and> (\<forall>v \<in> set (worlds (snd (sign_file cfg x f (w, [])))).
          fs v = fs w \<and> cert_serial_nums v = cert_serial_nums w \<and> posted v = posted w)
    \<and> sign_file cfg x f (w, []) = sign_file cfg' x' f (w, [])"
  using assms by (simp add: sign_file_def fst_log snd_log worlds_def Let_def)

theorem sign_file_rejects_ineligible_witness:
  "\<not> can_be_signed (example_file\<lparr>can_be_signed := False\<rparr>)
   \<and> fst (sign_file example_settings example_ext (example_file\<lparr>can_be_signed := False\<rparr>)
             (example_world, []))
       = Inl (SigningError ''Attempt to sign a non-xpi file 7.'')"
proof -
  have h: "\<not> can_be_signed (example_file\<lparr>can_be_signed := False\<rparr>)"
    by (simp add: example_file_def)
  have "str_int (pk (example_file\<lparr>can_be_signed := False\<rparr>)) = ''7''"
    by (simp add: example_file_def str_int_def str_nat.simps)
  with h sign_file_rejects_ineligible [OF h, of example_settings example_ext example_world]
  show ?thesis by simp
qed

text \<open>
  Claim C8. With no endpoint for the file, \<open>call_signing\<close> returns no serial
  number and raises nothing; \<open>sign_file\<close>, for a file that passes its first
  test, completes; in every world of either run the files, the records (so
  the serial number of the file's record) and the requests are those of the
  start.
\<close>

theorem no_endpoint_no_op:
  assumes "get_endpoint cfg f = None"
  shows "fst (call_signing cfg x f (w, [])) = Inr None
    \<and> (can_be_signed f \<longrightarrow> fst (sign_file cfg x f (w, [])) = Inr ())
    \<and> (\<forall>v \<in> set (worlds (snd (call_signing cfg x f (w, [])))).
          fs v = fs w \<and> cert_serial_nums v = cert_serial_nums w \<and> posted v = posted w)
    \<and> (\<forall>v \<in> set (worlds (snd (sign_file cfg x f (w, [])))).
          fs v = fs w \<and> cert_serial_nums v = cert_serial_nums w \<and> posted v = posted w)"
  using assms by (simp add: sign_file_def call_signing_def fst_log snd_log worlds_def Let_def)

theorem no_endpoint_no_op_witness:
  "get_endpoint (example_settings\<lparr>SIGNING_SERVER := None\<rparr>) example_file = None
   \<and> can_be_signed example_file
   \<and> fst (call_signing (example_settings\<lparr>SIGNING_SERVER := None\<rparr>) example_ext example_file
            (example_world, [])) = Inr None
   \<and> fst (sign_file (example_settings\<lparr>SIGNING_SERVER := None\<rparr>) example_ext example_file
            (example_world, [])) = Inr ()
   \<and> fs (now (snd (sign_file (example_settings\<lparr>SIGNING_SERVER := None\<rparr>) example_ext
                     example_file (example_world, [])))) = fs example_world
   \<and> cert_serial_nums (now (snd (sign_file (example_settings\<lparr>SIGNING_SERVER := None\<rparr>)
                     example_ext example_file (example_world, [])))) (pk example_file) = None"
proof -
  have h: "get_endpoint (example_settings\<lparr>SIGNING_SERVER := None\<rparr>) example_file = None"
    by (simp add: get_endpoint_def example_settings_def example_file_def)
  have e: "can_be_signed example_file" "cert_serial_nums example_world (pk example_file) = None"
    by (simp_all add: example_file_def example_world_def)
  from h e no_endpoint_no_op [OF h, of example_ext example_world]
  show ?thesis unfolding worlds_def now_def by (simp only: list.set ball_simps simp_thms)
qed

text \<open>
  Claim C6, as it is stated, gives the message of the error as \<open>no files\<close>;
  the message \<open>sign\<close> raises is \<open>No file\<close>.
\<close>

theorem sign_no_files_counterexample:
  "fst (sign example_settings example_ext \<lparr>version_pk = 3, all_files = []\<rparr> (example_world, []))
     \<noteq> Inl (SigningError ''no files'')"
  by (simp add: sign_def)

text \<open>
  Claim C6, amended. For a version with no files \<open>sign\<close> raises
  \<open>SigningError\<close> with the message \<open>No file\<close>; every world of the run has the
  files, the records and the requests of the start, and the outcome is the
  same under any settings and libraries: no endpoint is contacted and
  \<open>sign_file\<close> is not called.
\<close>

theorem sign_no_files:
  assumes "all_files v = []"
  shows "fst (sign cfg x v (w, [])) = Inl (SigningError ''No file'')
    \<and> (\<forall>u \<in> set (worlds (snd (sign cfg x v (w, [])))).
          fs u = fs w \<and> cert_serial_nums u = cert_serial_nums w \<and> posted u = posted w)
    \<and> sign cfg x v (w, []) = sign cfg' x' v (w, [])"
  using assms by (simp add: sign_def fst_log snd_log worlds_def Let_def)

theorem sign_no_files_witness:
  "all_files \<lparr>version_pk = 3, all_files = []\<rparr> = []
   \<and> fst (sign example_settings example_ext \<lparr>version_pk = 3, all_files = []\<rparr> (example_world, []))
       = Inl (SigningError ''No file'')
   \<and> posted (now (snd (sign example_settings example_ext \<lparr>version_pk = 3, all_files = []\<rparr>
        (example_world, [])))) = posted example_world"
proof -
  have h: "all_files \<lparr>version_pk = 3, all_files = []\<rparr> = []" by simp
  from h sign_no_files [OF h, of example_settings example_ext example_world]
  show ?thesis by (simp add: worlds_def now_def)
qed

text \<open>
  Claim C3, as it is stated, has the task go on to the remaining files after
  one file fails. In the example version the first file is not an archive
  and the second is sound: \<open>sign\<close> raises the first file's error, logs
  nothing about the second file and posts nothing, and the second file stays
  unsigned, although \<open>sign_file\<close> on it alone succeeds.
\<close>

theorem sign_second_file_not_attempted:
  "filter can_be_signed (all_files example_version) = [broken_file, example_file]
   \<and> fst (sign example_settings example_ext example_version (example_world, []))
       = Inl (SigningError ''Archive extraction failed. Bad archive?'')
   \<and> logged (now (snd (sign example_settings example_ext example_version (example_world, []))))
       = [(INFO, ''Signing version: 3''),
          (ERROR, ''Archive extraction failed. Bad archive?''),
          (INFO, ''Signing failed for file 6.'')]
   \<and> posted (now (snd (sign example_settings example_ext example_version (example_world, []))))
       = []
   \<and> fs (now (snd (sign example_settings example_ext example_version (example_world, []))))
        (file_path example_file) = Some ''PK-good''
   \<and> fst (sign_file example_settings example_ext example_file (example_world, [])) = Inr ()"
  by (simp add: sign_def sign_file_def call_signing_def get_endpoint_def run_defs example_defs
      str_int_3 str_int_6 str_int_7)

text \<open>
  Claim C3, amended. \<open>sign\<close> stops at the first file whose signing fails: when
  the files before \<open>f\<close> are signed and \<open>sign_file\<close> raises on \<open>f\<close>, the outcome
  and the run of \<open>sign\<close> are those of that call of \<open>sign_file\<close>, whatever files
  come after \<open>f\<close>; they are not attempted.
\<close>

theorem sign_stops_at_first_failure:
  assumes "filter can_be_signed (all_files v) = pre @ f # rest"
    and "sign_files cfg x pre
           (log INFO (''Signing version: '' @ str_int (version_pk v)) (w, [])) = (Inr (), r1)"
    and "fst (sign_file cfg x f r1) = Inl e"
  shows "sign cfg x v (w, []) = sign_file cfg x f r1"
proof -
  have ne: "all_files v \<noteq> []"
  proof
    assume "all_files v = []"
    then have "filter can_be_signed (all_files v) = []" by simp
    with assms(1) show False by simp
  qed
  obtain r2 where f: "sign_file cfg x f r1 = (Inl e, r2)"
    using assms(3) by (cases "sign_file cfg x f r1") auto
  have "sign cfg x v (w, []) =
        sign_files cfg x (pre @ f # rest)
          (log INFO (''Signing version: '' @ str_int (version_pk v)) (w, []))"
    using ne by (simp only: sign_def assms(1) Let_def if_False)
  also have "\<dots> = sign_files cfg x (f # rest) r1"
    by (simp only: sign_files_append assms(2) prod.case sum.case)
  also have "\<dots> = (Inl e, r2)"
    by (simp only: sign_files.simps f prod.case sum.case)
  finally show ?thesis by (simp only: f)
qed

theorem sign_stops_at_first_failure_witness:
  "filter can_be_signed (all_files example_version) = [] @ broken_file # [example_file]
   \<and> sign_files example_settings example_ext []
         (log INFO (''Signing version: '' @ str_int (version_pk example_version))
            (example_world, []))
       = (Inr (), log INFO (''Signing version: '' @ str_int (version_pk example_version))
            (example_world, []))
   \<and> fst (sign_file example_settings example_ext broken_file
             (log INFO (''Signing version: '' @ str_int (version_pk example_version))
                (example_world, [])))
       = Inl (SigningError ''Archive extraction failed. Bad archive?'')
   \<and> sign example_settings example_ext example_version (example_world, [])
       = sign_file example_settings example_ext broken_file
           (log INFO (''Signing version: '' @ str_int (version_pk example_version))
              (example_world, []))"
proof -
  have a: "filter can_be_signed (all_files example_version) = [] @ broken_file # [example_file]"
    by (simp add: example_defs)
  have b: "sign_files example_settings example_ext []
         (log INFO (''Signing version: '' @ str_int (version_pk example_version))
            (example_world, []))
       = (Inr (), log INFO (''Signing version: '' @ str_int (version_pk example_version))
            (example_world, []))"
    by simp
  have c: "fst (sign_file example_settings example_ext broken_file
             (log INFO (''Signing version: '' @ str_int (version_pk example_version))
                (example_world, [])))
       = Inl (SigningError ''Archive extraction failed. Bad archive?'')"
    by (simp add: sign_file_def call_signing_def get_endpoint_def run_defs example_defs)
  from a b c sign_stops_at_first_failure [OF a b c]
  show ?thesis by (intro conjI)
qed

subsection \<open>Failures inside \<open>call_signing\<close>\<close>

lemma find_free: "find (\<lambda>n. m n = None) ns = Some t \<Longrightarrow> m t = None"
  by (auto simp: find_Some_iff)

lemma remove_absent: "m t = None \<Longrightarrow> m(t := None) = m"
  by (rule ext) simp

text \<open>
  Claim C4. When the extraction of the archive fails (the file cannot be
  opened, or the extractor raises on its bytes), \<open>call_signing\<close> raises
  \<open>SigningError\<close>, and so does \<open>sign_file\<close>. No world of the run has a request
  more than the start: the error comes before any network call. Only the
  temporary name is ever touched, and the files at the end are those of the
  start. The extraction is reached when an endpoint is active and a
  temporary name was found.
\<close>

theorem extraction_failure_before_network:
  assumes "get_endpoint cfg f = Some endpoint"
    and "find (\<lambda>n. fs w n = None) (temp_names x) = Some t"
    and "(case fs w (file_path f) of None \<Rightarrow> None | Some archive \<Rightarrow> JarExtractor x archive)
           = None"
  shows "fst (call_signing cfg x f (w, []))
           = Inl (SigningError ''Archive extraction failed. Bad archive?'')
    \<and> (\<forall>v \<in> set (worlds (snd (call_signing cfg x f (w, [])))).
          posted v = posted w \<and> (\<forall>path. path \<noteq> t \<longrightarrow> fs v path = fs w path))
    \<and> fs (now (snd (call_signing cfg x f (w, [])))) = fs w
    \<and> (\<exists>msg. fst (sign_file cfg x f (w, [])) = Inl (SigningError msg))
    \<and> (\<forall>v \<in> set (worlds (snd (sign_file cfg x f (w, [])))).
          posted v = posted w \<and> cert_serial_nums v = cert_serial_nums w
          \<and> (\<forall>path. path \<noteq> t \<longrightarrow> fs v path = fs w path))
    \<and> fs (now (snd (sign_file cfg x f (w, [])))) = fs w"
proof -
  have free: "fs w t = None" using assms(2) by (rule find_free)
  have c: "call_signing cfg x f (w, []) =
        (Inl (SigningError ''Archive extraction failed. Bad archive?''),
         log ERROR ''Archive extraction failed. Bad archive?''
           (remove_file t (write_file t [] (w, []))))"
    using assms free
    by (auto simp: call_signing_def NamedTemporaryFile_def now_def Let_def remove_file_def
        write_file_def effect_def split: option.splits)
  show ?thesis
    unfolding c using free
    by (cases "can_be_signed f")
       (simp_all add: sign_file_def c worlds_def run_defs remove_absent)
qed

theorem extraction_failure_before_network_witness:
  "get_endpoint example_settings broken_file = Some ''https://signing/1.0/sign_addon''
   \<and> find (\<lambda>n. fs example_world n = None) (temp_names example_ext) = Some ''/tmp/tmpB''
   \<and> (case fs example_world (file_path broken_file) of
         None \<Rightarrow> None | Some archive \<Rightarrow> JarExtractor example_ext archive) = None
   \<and> fst (call_signing example_settings example_ext broken_file (example_world, []))
       = Inl (SigningError ''Archive extraction failed. Bad archive?'')
   \<and> fs (now (snd (call_signing example_settings example_ext broken_file (example_world, []))))
       = fs example_world"
proof -
  have a: "get_endpoint example_settings broken_file = Some ''https://signing/1.0/sign_addon''"
    by (simp add: get_endpoint_def example_defs)
  have b: "find (\<lambda>n. fs example_world n = None) (temp_names example_ext) = Some ''/tmp/tmpB''"
    by (simp add: example_defs)
  have c: "(case fs example_world (file_path broken_file) of
         None \<Rightarrow> None | Some archive \<Rightarrow> JarExtractor example_ext archive) = None"
    by (simp add: example_defs)
  note r = extraction_failure_before_network [OF a b c]
  from a b c r [THEN conjunct1] r [THEN conjunct2, THEN conjunct2, THEN conjunct1]
  show ?thesis by (intro conjI)
qed

text \<open>
  Claim C5. When the signing server answers with a status other than 200
  (every status outside 2xx is one), \<open>call_signing\<close> raises \<open>SigningError\<close>
  with a message that ends with the reason of the response, and \<open>sign_file\<close>
  raises it again; no serial number is returned. The file at the canonical
  path holds the archive in every world of the run, the files at the end are
  those of the start, and the records are untouched.
\<close>

theorem non_200_response_is_signing_error:
  assumes "get_endpoint cfg f = Some endpoint"
    and "find (\<lambda>n. fs w n = None) (temp_names x) = Some t"
    and "fs w (file_path f) = Some archive"
    and "JarExtractor x archive = Some signatures"
    and "post x (posted w)
           \<lparr>url = endpoint, timeout = SIGNING_SERVER_TIMEOUT cfg,
            data_addon_id = addon_slug f @ ''-'' @ version_version f,
            files_name = ''zigbert.sf'', files_body = signatures\<rparr> = Returned resp"
    and "status_code resp \<noteq> 200"
  shows "fst (call_signing cfg x f (w, []))
           = Inl (SigningError (''Posting to add-on signing failed '' @ reason resp))
    \<and> (\<forall>v \<in> set (worlds (snd (call_signing cfg x f (w, [])))).
          fs v (file_path f) = Some archive)
    \<and> fs (now (snd (call_signing cfg x f (w, [])))) = fs w
    \<and> (can_be_signed f \<longrightarrow> fst (sign_file cfg x f (w, []))
           = Inl (SigningError (''Posting to add-on signing failed '' @ reason resp)))
    \<and> (\<forall>v \<in> set (worlds (snd (sign_file cfg x f (w, [])))).
          fs v (file_path f) = Some archive \<and> cert_serial_nums v = cert_serial_nums w)
    \<and> fs (now (snd (sign_file cfg x f (w, [])))) = fs w"
proof -
  have free: "fs w t = None" using assms(2) by (rule find_free)
  with assms(3) have ne: "t \<noteq> file_path f" by auto
  let ?req = "\<lparr>url = endpoint, timeout = SIGNING_SERVER_TIMEOUT cfg,
            data_addon_id = addon_slug f @ ''-'' @ version_version f,
            files_name = ''zigbert.sf'', files_body = signatures\<rparr>"
  let ?msg = "''Posting to add-on signing failed '' @ reason resp"
  have c: "call_signing cfg x f (w, []) =
        (Inl (SigningError ?msg),
         log ERROR ?msg
          (effect (\<lambda>w. w\<lparr>posted := posted w @ [?req]\<rparr>)
            (log INFO (''Calling signing service: '' @ endpoint)
              (log INFO (''File signature contents: '' @ signatures)
                (remove_file t (write_file t [] (w, [])))))))"
    using assms free ne
    by (simp add: call_signing_def NamedTemporaryFile_def now_def Let_def remove_file_def
        write_file_def effect_def log_def)
  show ?thesis
    unfolding c using free ne assms(3)
    by (cases "can_be_signed f")
       (simp_all add: sign_file_def c worlds_def run_defs remove_absent)
qed

theorem non_200_response_is_signing_error_witness:
  "get_endpoint example_settings example_file = Some ''https://signing/1.0/sign_addon''
   \<and> find (\<lambda>n. fs example_world n = None) (temp_names failing_server_ext)
       = Some ''/tmp/tmpB''
   \<and> fs example_world (file_path example_file) = Some ''PK-good''
   \<and> JarExtractor failing_server_ext ''PK-good'' = Some ''manifest''
   \<and> post failing_server_ext (posted example_world)
         \<lparr>url = ''https://signing/1.0/sign_addon'',
          timeout = SIGNING_SERVER_TIMEOUT example_settings,
          data_addon_id = addon_slug example_file @ ''-'' @ version_version example_file,
          files_name = ''zigbert.sf'', files_body = ''manifest''\<rparr>
       = Returned \<lparr>status_code = 500, reason = ''Internal Server Error'', content = []\<rparr>
   \<and> status_code \<lparr>status_code = 500, reason = ''Internal Server Error'', content = []\<rparr> \<noteq> 200
   \<and> can_be_signed example_file
   \<and> fst (sign_file example_settings
            failing_server_ext example_file (example_world, []))
       = Inl (SigningError ''Posting to add-on signing failed Internal Server Error'')
   \<and> fs (now (snd (sign_file example_settings
            failing_server_ext example_file (example_world, [])))) = fs example_world"
proof -
  let ?x = failing_server_ext
  have a: "get_endpoint example_settings example_file = Some ''https://signing/1.0/sign_addon''"
    by (simp add: get_endpoint_def example_defs)
  have b: "find (\<lambda>n. fs example_world n = None) (temp_names ?x) = Some ''/tmp/tmpB''"
    by (simp add: example_defs)
  have c: "fs example_world (file_path example_file) = Some ''PK-good''"
    by (simp add: example_defs)
  have d: "JarExtractor ?x ''PK-good'' = Some ''manifest''"
    by (simp add: example_defs)
  have e: "post ?x (posted example_world)
           \<lparr>url = ''https://signing/1.0/sign_addon'',
            timeout = SIGNING_SERVER_TIMEOUT example_settings,
            data_addon_id = addon_slug example_file @ ''-'' @ version_version example_file,
            files_name = ''zigbert.sf'', files_body = ''manifest''\<rparr>
         = Returned \<lparr>status_code = 500, reason = ''Internal Server Error'', content = []\<rparr>"
    by (simp add: example_defs)
  have g: "status_code \<lparr>status_code = 500, reason = ''Internal Server Error'', content = []\<rparr>
             \<noteq> 200"
    by simp
  have h: "can_be_signed example_file" by (simp add: example_defs)
  note r = non_200_response_is_signing_error [OF a b c d e g]
  have "fst (sign_file example_settings ?x example_file (example_world, []))
       = Inl (SigningError ''Posting to add-on signing failed Internal Server Error'')"
    using r h by simp
  moreover have "fs (now (snd (sign_file example_settings ?x example_file (example_world, []))))
       = fs example_world"
    using r by (simp only:)
  ultimately show ?thesis using a b c d e g h by (intro conjI)
qed

subsection \<open>The canonical path\<close>

text \<open>
  \<open>make_signed\<close> writes to the temporary name only: the worlds it adds differ
  from the world it started in at that name alone.
\<close>

lemma fst_write_file: "fst (write_file t b r) = (fst r)\<lparr>fs := (fs (fst r))(t \<mapsto> b)\<rparr>"
  by (simp add: write_file_def effect_def)

lemma snd_write_file: "snd (write_file t b r) = fst r # snd r"
  by (simp add: write_file_def effect_def)

lemma fold_write_file_now:
  "cert_serial_nums (fst (fold (write_file t) ps r)) = cert_serial_nums (fst r)
   \<and> posted (fst (fold (write_file t) ps r)) = posted (fst r)
   \<and> logged (fst (fold (write_file t) ps r)) = logged (fst r)
   \<and> (\<forall>p. p \<noteq> t \<longrightarrow> fs (fst (fold (write_file t) ps r)) p = fs (fst r) p)"
  by (induction ps arbitrary: r) (simp_all add: fst_write_file)

lemma fold_write_file_past:
  "v \<in> set (snd (fold (write_file t) ps r)) \<Longrightarrow>
   v \<in> set (snd r) \<or>
   (cert_serial_nums v = cert_serial_nums (fst r) \<and> posted v = posted (fst r)
    \<and> logged v = logged (fst r) \<and> (\<forall>p. p \<noteq> t \<longrightarrow> fs v p = fs (fst r) p))"
proof (induction ps arbitrary: r)
  case Nil
  then show ?case by simp
next
  case (Cons a ps)
  from Cons.prems have "v \<in> set (snd (fold (write_file t) ps (write_file t a r)))"
    by simp
  then have "v \<in> set (snd (write_file t a r)) \<or>
   (cert_serial_nums v = cert_serial_nums (fst (write_file t a r))
    \<and> posted v = posted (fst (write_file t a r))
    \<and> logged v = logged (fst (write_file t a r))
    \<and> (\<forall>p. p \<noteq> t \<longrightarrow> fs v p = fs (fst (write_file t a r)) p))"
    by (rule Cons.IH)
  then show ?case
    by (auto simp: fst_write_file snd_write_file)
qed

text \<open>
  The frame of \<open>call_signing\<close> on a file that exists: before its last step
  the canonical path holds the original bytes and no record has changed;
  after it the path holds the original bytes, or, when a serial number is
  returned, a finished output of \<open>make_signed\<close> on the original bytes.
\<close>

lemma call_signing_frame:
  assumes "fs w (file_path f) = Some orig"
  shows "(\<forall>v \<in> set (snd (snd (call_signing cfg x f (w, [])))).
            fs v (file_path f) = Some orig \<and> cert_serial_nums v = cert_serial_nums w)
    \<and> cert_serial_nums (fst (snd (call_signing cfg x f (w, [])))) = cert_serial_nums w
    \<and> (case fst (call_signing cfg x f (w, [])) of
         Inr (Some n) \<Rightarrow>
           (\<exists>pkcs7 signed. get_signature_serial_number x pkcs7 = Some n
              \<and> snd (make_signed x orig pkcs7) = Some signed
              \<and> fs (fst (snd (call_signing cfg x f (w, [])))) (file_path f) = Some signed)
       | _ \<Rightarrow> fs (fst (snd (call_signing cfg x f (w, [])))) (file_path f) = Some orig)"
  using assms
  apply (simp add: call_signing_def NamedTemporaryFile_def jar_make_signed_def os_rename_def
         log_def effect_def write_file_def[where bytes="[]"] remove_file_def now_def Let_def
         split: option.splits post_outcome.splits sum.splits prod.splits bool.splits error.splits)
  apply (auto simp: fst_write_file snd_write_file fold_write_file_now
              dest!: find_free fold_write_file_past)
  done

lemma sign_file_frame:
  assumes "fs w (file_path f) = Some orig"
  shows "(\<forall>v \<in> set (worlds (snd (sign_file cfg x f (w, [])))).
           (fs v (file_path f) = Some orig \<and> cert_serial_nums v = cert_serial_nums w)
           \<or> (\<exists>pkcs7 signed. snd (make_signed x orig pkcs7) = Some signed
                 \<and> fs v (file_path f) = Some signed))
    \<and> ((\<exists>e. fst (sign_file cfg x f (w, [])) = Inl e) \<longrightarrow>
         (\<forall>v \<in> set (worlds (snd (sign_file cfg x f (w, [])))).
            fs v (file_path f) = Some orig \<and> cert_serial_nums v = cert_serial_nums w))"
proof (cases "can_be_signed f")
  case False
  with assms show ?thesis
    by (simp add: sign_file_def worlds_def log_def effect_def Let_def)
next
  case True
  obtain res R P where c: "call_signing cfg x f (w, []) = (res, R, P)"
    by (metis prod.exhaust)
  note fr = call_signing_frame [OF assms, of cfg x, unfolded c, simplified]
  show ?thesis
  proof (cases res)
    case (Inl e)
    with True fr show ?thesis
      by (cases e) (auto simp: sign_file_def c worlds_def log_def effect_def)
  next
    case (Inr k)
    show ?thesis
    proof (cases k)
      case None
      with True Inr fr show ?thesis
        by (auto simp: sign_file_def c worlds_def log_def effect_def)
    next
      case (Some n)
      with True Inr fr show ?thesis
        by (auto simp: sign_file_def c worlds_def log_def effect_def update_cert_serial_num_def)
    qed
  qed
qed

text \<open>
  Claim C1. Take any file whose canonical path holds the bytes \<open>orig\<close>, and any
  settings and libraries. In the run of \<open>call_signing\<close> every world before the
  last one shows \<open>orig\<close> at the canonical path, and the last one shows \<open>orig\<close>
  or, together with a returned serial number, a finished output of
  \<open>make_signed\<close> on \<open>orig\<close>: the path changes at most once, in the last step,
  which is the rename, itself one step of the file system. When \<open>call_signing\<close>
  raises, every world shows \<open>orig\<close>. The same holds for the whole of
  \<open>sign_file\<close>: every world shows \<open>orig\<close> or a finished output of
  \<open>make_signed\<close> on \<open>orig\<close>, never one of the partial contents written to the
  temporary name, and when \<open>sign_file\<close> raises every world shows \<open>orig\<close>.
\<close>

theorem canonical_path_original_or_signed:
  assumes "fs w (file_path f) = Some orig"
  shows "(\<forall>v \<in> set (snd (snd (call_signing cfg x f (w, [])))). fs v (file_path f) = Some orig)
    \<and> (fs (now (snd (call_signing cfg x f (w, [])))) (file_path f) = Some orig
        \<or> (\<exists>n pkcs7 signed. fst (call_signing cfg x f (w, [])) = Inr (Some n)
              \<and> snd (make_signed x orig pkcs7) = Some signed
              \<and> fs (now (snd (call_signing cfg x f (w, [])))) (file_path f) = Some signed))
    \<and> ((\<exists>e. fst (call_signing cfg x f (w, [])) = Inl e) \<longrightarrow>
         (\<forall>v \<in> set (worlds (snd (call_signing cfg x f (w, [])))).
            fs v (file_path f) = Some orig))
    \<and> (\<forall>v \<in> set (worlds (snd (sign_file cfg x f (w, [])))).
          fs v (file_path f) = Some orig
          \<or> (\<exists>pkcs7 signed. snd (make_signed x orig pkcs7) = Some signed
                \<and> fs v (file_path f) = Some signed))
    \<and> ((\<exists>e. fst (sign_file cfg x f (w, [])) = Inl e) \<longrightarrow>
         (\<forall>v \<in> set (worlds (snd (sign_file cfg x f (w, [])))).
            fs v (file_path f) = Some orig))"
proof -
  obtain res R P where c: "call_signing cfg x f (w, []) = (res, R, P)"
    by (metis prod.exhaust)
  note fr = call_signing_frame [OF assms, of cfg x, unfolded c, simplified]
  have call: "(\<forall>v \<in> set P. fs v (file_path f) = Some orig)
    \<and> (fs R (file_path f) = Some orig
        \<or> (\<exists>n pkcs7 signed. res = Inr (Some n)
              \<and> snd (make_signed x orig pkcs7) = Some signed
              \<and> fs R (file_path f) = Some signed))
    \<and> ((\<exists>e. res = Inl e) \<longrightarrow> (\<forall>v \<in> set (R # P). fs v (file_path f) = Some orig))"
    using fr by (cases res) (auto split: option.splits)
  from sign_file_frame [OF assms, of cfg x]
  have whole: "(\<forall>v \<in> set (worlds (snd (sign_file cfg x f (w, [])))).
          fs v (file_path f) = Some orig
          \<or> (\<exists>pkcs7 signed. snd (make_signed x orig pkcs7) = Some signed
                \<and> fs v (file_path f) = Some signed))
    \<and> ((\<exists>e. fst (sign_file cfg x f (w, [])) = Inl e) \<longrightarrow>
         (\<forall>v \<in> set (worlds (snd (sign_file cfg x f (w, [])))).
            fs v (file_path f) = Some orig))"
    by blast
  from call whole show ?thesis
    by (simp add: c now_def worlds_def)
qed


theorem canonical_path_original_or_signed_witness:
  "fs example_world (file_path example_file) = Some ''PK-good''
   \<and> (fs (now (snd (call_signing example_settings example_ext example_file
                      (example_world, [])))) (file_path example_file) = Some ''PK-good''
        \<or> (\<exists>n pkcs7 signed.
              fst (call_signing example_settings example_ext example_file (example_world, []))
                = Inr (Some n)
              \<and> snd (make_signed example_ext ''PK-good'' pkcs7) = Some signed
              \<and> fs (now (snd (call_signing example_settings example_ext example_file
                      (example_world, [])))) (file_path example_file) = Some signed))
   \<and> fs (now (snd (call_signing example_settings example_ext example_file (example_world, []))))
        (file_path example_file) = Some ''PK-good+ABC''"
proof -
  have a: "fs example_world (file_path example_file) = Some ''PK-good''"
    by (simp add: example_defs)
  note r = canonical_path_original_or_signed [OF a, of example_settings example_ext]
  have "fs (now (snd (call_signing example_settings example_ext example_file (example_world, []))))
        (file_path example_file) = Some ''PK-good+ABC''"
    by (simp add: call_signing_def get_endpoint_def run_defs example_defs)
  with a r [THEN conjunct2, THEN conjunct1]
  show ?thesis by (intro conjI)
qed

subsection \<open>Successful signing\<close>





end
